theory Spec2Isabelle
  imports Main "HOL-Library.Word" "HOL-Library.Char_ord" "HOL-Library.List_Lexorder"
begin

section \<open>The S3 storage driver of the registry\<close>

text \<open>
  A shallow embedding of \<^verbatim>\<open>registry/storage/driver/s3/s3.go\<close>. The driver talks to a
  remote bucket through the goamz client; the bucket is the environment of every driver
  function and is modelled as an explicit state: the objects it holds (in key order), the
  multipart sessions, and a script of faults. Every backend request consumes the head of
  the script: \<open>None\<close> lets the request through, \<open>Some e\<close> makes it fail with \<open>e\<close>
  and leaves the bucket as it is. An empty script means that no further request fails.
\<close>

subsection \<open>Data\<close>

type_synonym byte = "8 word"

datatype error =
    S3Error string               \<comment> \<open>\<^verbatim>\<open>*s3.Error\<close> with its \<^verbatim>\<open>Code\<close>\<close>
  | OtherError string            \<comment> \<open>any other error value (transport, source reader)\<close>
  | EOF                          \<comment> \<open>\<^verbatim>\<open>io.EOF\<close>\<close>
  | PathNotFoundError string     \<comment> \<open>\<^verbatim>\<open>storagedriver.PathNotFoundError{Path}\<close>\<close>

record s3object =
  Data :: "byte list"
  Modified :: string

text \<open>\<^verbatim>\<open>s3.Key\<close>, the entry of a list response.\<close>

record s3key =
  Key :: string
  Size :: nat
  LastModified :: string

text \<open>\<^verbatim>\<open>s3.ListResp\<close>\<close>

record ListResp =
  Contents :: "s3key list"
  CommonPrefixes :: "string list"
  IsTruncated :: bool
  NextMarker :: string

text \<open>\<^verbatim>\<open>s3.Part\<close>; the zero value is what a failed \<^verbatim>\<open>PutPart\<close> returns.\<close>

record Part =
  N :: nat
  PSize :: nat

datatype status = Pending | Completed | Aborted

text \<open>A multipart session: its key, the parts uploaded so far and how it was resolved.\<close>

record multi =
  MKey :: string
  Uploaded :: "(nat \<times> byte list) list"
  Status :: status
  Resolutions :: nat

record bucket =
  objects :: "(string \<times> s3object) list"
  multis :: "multi list"
  faults :: "error option list"

record driver =
  ChunkSize :: nat
  RootDirectory :: string
  BucketName :: string

definition listMax :: nat where
  "listMax = 1000"

subsection \<open>Keys\<close>

definition TrimRight :: "string \<Rightarrow> char \<Rightarrow> string" where
  "TrimRight s c = rev (dropWhile (\<lambda>x. x = c) (rev s))"

definition TrimLeft :: "string \<Rightarrow> char \<Rightarrow> string" where
  "TrimLeft s c = dropWhile (\<lambda>x. x = c) s"

definition s3Path :: "driver \<Rightarrow> string \<Rightarrow> string" where
  "s3Path d path = TrimLeft (TrimRight (RootDirectory d) (CHR ''/'') @ path) (CHR ''/'')"

fun HasPrefix :: "string \<Rightarrow> string \<Rightarrow> bool" where
  "HasPrefix s [] = True"
| "HasPrefix [] (p # ps) = False"
| "HasPrefix (c # cs) (p # ps) = (c = p \<and> HasPrefix cs ps)"

subsection \<open>The bucket\<close>

definition next_fault :: "bucket \<Rightarrow> error option \<times> bucket" where
  "next_fault b = (case faults b of [] \<Rightarrow> (None, b) | f # fs \<Rightarrow> (f, b\<lparr>faults := fs\<rparr>))"

text \<open>
  Listing. The keys that start with the prefix are taken in key order; with a delimiter,
  the keys that contain it after the prefix are rolled up into one common prefix. A page
  holds the first \<open>maxKeys\<close> entries after the marker and says whether more follow.
\<close>

datatype entry = EKey s3key | EPrefix string

fun marker_of :: "entry \<Rightarrow> string" where
  "marker_of (EKey k) = Key k"
| "marker_of (EPrefix p) = p"

fun upto_delim :: "string \<Rightarrow> string \<Rightarrow> string option" where
  "upto_delim delim [] = None"
| "upto_delim delim (c # cs) =
     (if HasPrefix (c # cs) delim then Some delim
      else map_option ((#) c) (upto_delim delim cs))"

definition entry_of :: "string \<Rightarrow> string \<Rightarrow> string \<times> s3object \<Rightarrow> entry" where
  "entry_of pfx delim ko =
     (case (if delim = [] then None else upto_delim delim (drop (length pfx) (fst ko))) of
        Some r \<Rightarrow> EPrefix (pfx @ r)
      | None \<Rightarrow> EKey \<lparr>Key = fst ko, Size = length (Data (snd ko)), LastModified = Modified (snd ko)\<rparr>)"

definition entries :: "string \<Rightarrow> string \<Rightarrow> string \<Rightarrow> bucket \<Rightarrow> entry list" where
  "entries pfx delim marker b =
     filter (\<lambda>e. marker = [] \<or> marker < marker_of e)
       (remdups_adj (map (entry_of pfx delim) (filter (\<lambda>ko. HasPrefix (fst ko) pfx) (objects b))))"

fun keys_of :: "entry list \<Rightarrow> s3key list" where
  "keys_of [] = []"
| "keys_of (EKey k # es) = k # keys_of es"
| "keys_of (EPrefix p # es) = keys_of es"

fun prefixes_of :: "entry list \<Rightarrow> string list" where
  "prefixes_of [] = []"
| "prefixes_of (EKey k # es) = prefixes_of es"
| "prefixes_of (EPrefix p # es) = p # prefixes_of es"

definition bucket_List ::
  "string \<Rightarrow> string \<Rightarrow> string \<Rightarrow> nat \<Rightarrow> bucket \<Rightarrow> (error + ListResp) \<times> bucket" where
  "bucket_List pfx delim marker maxKeys b =
     (case next_fault b of
        (Some e, b') \<Rightarrow> (Inl e, b')
      | (None, b') \<Rightarrow>
          (let es = entries pfx delim marker b'; page = take maxKeys es;
               more = (maxKeys < length es)
           in (Inr \<lparr>Contents = keys_of page, CommonPrefixes = prefixes_of page,
                    IsTruncated = more,
                    NextMarker = (if more \<and> page \<noteq> [] then marker_of (last page) else [])\<rparr>, b')))"

text \<open>Bulk delete: removes every named key; a key that is not there is no error.\<close>

definition bucket_DelMulti :: "string list \<Rightarrow> bucket \<Rightarrow> error option \<times> bucket" where
  "bucket_DelMulti ks b =
     (case next_fault b of
        (Some e, b') \<Rightarrow> (Some e, b')
      | (None, b') \<Rightarrow> (None, b'\<lparr>objects := filter (\<lambda>ko. fst ko \<notin> set ks) (objects b')\<rparr>))"



subsection \<open>Delete\<close>

text \<open>
  \<^verbatim>\<open>Delete\<close> lists up to \<^verbatim>\<open>listMax\<close> keys under the path, bulk-deletes the page and
  lists again, until a page comes back empty. \<open>Delete_loop\<close> is the \<^verbatim>\<open>for\<close> loop;
  its second branch is the \<^verbatim>\<open>return nil\<close> taken when \<^verbatim>\<open>DelMulti\<close> fails.
\<close>

function Delete_loop :: "driver \<Rightarrow> string \<Rightarrow> ListResp \<Rightarrow> bucket \<Rightarrow> error option \<times> bucket" where
  "Delete_loop d path listResponse b =
     (if Contents listResponse = [] then (None, b)
      else (case bucket_DelMulti (map Key (Contents listResponse)) b of
              (Some e, bkt1) \<Rightarrow> (None, bkt1)
            | (None, bkt1) \<Rightarrow>
                (case bucket_List (s3Path d path) [] [] listMax bkt1 of
                   (Inl e, b2) \<Rightarrow> (Some e, b2)
                 | (Inr listResponse', b2) \<Rightarrow> Delete_loop d path listResponse' b2)))"
  by pat_completeness auto

definition Delete :: "driver \<Rightarrow> string \<Rightarrow> bucket \<Rightarrow> error option \<times> bucket" where
  "Delete d path b =
     (case bucket_List (s3Path d path) [] [] listMax b of
        (Inl e, bkt1) \<Rightarrow> (Some (PathNotFoundError path), bkt1)
      | (Inr listResponse, bkt1) \<Rightarrow>
          (if Contents listResponse = [] then (Some (PathNotFoundError path), bkt1)
           else Delete_loop d path listResponse bkt1))"

lemma next_fault_objects: "next_fault b = (f, b') \<Longrightarrow> objects b' = objects b"
  by (auto simp: next_fault_def split: list.splits)

lemma keys_of_iff: "k \<in> set (keys_of es) \<longleftrightarrow> EKey k \<in> set es"
  by (induction es rule: keys_of.induct) auto

lemma entry_of_key: "entry_of p dl ko = EKey k \<Longrightarrow> Key k = fst ko"
  by (auto simp: entry_of_def split: option.splits)

lemma entries_keys: "EKey k \<in> set (entries p dl m b) \<Longrightarrow> Key k \<in> fst ` set (objects b)"
proof -
  assume "EKey k \<in> set (entries p dl m b)"
  then obtain ko where "ko \<in> set (objects b)" "entry_of p dl ko = EKey k"
    by (auto simp: entries_def)
  then show ?thesis using entry_of_key[of p dl ko k] by force
qed

lemma bucket_List_keys:
  assumes "bucket_List p dl m n b = (Inr r, b')"
  shows "objects b' = objects b" and "Key ` set (Contents r) \<subseteq> fst ` set (objects b)"
proof -
  obtain f b0 where nf: "next_fault b = (f, b0)" by (cases "next_fault b")
  with assms have f: "f = None" and b': "b' = b0"
    and r: "Contents r = keys_of (take n (entries p dl m b0))"
    by (auto simp: bucket_List_def Let_def split: option.splits)
  from nf have o: "objects b0 = objects b" by (rule next_fault_objects)
  show "objects b' = objects b" using o b' by simp
  show "Key ` set (Contents r) \<subseteq> fst ` set (objects b)"
  proof
    fix x assume "x \<in> Key ` set (Contents r)"
    then obtain k where k: "k \<in> set (Contents r)" "x = Key k" by auto
    then have "EKey k \<in> set (take n (entries p dl m b0))" by (simp add: r keys_of_iff)
    then have "EKey k \<in> set (entries p dl m b0)" by (rule in_set_takeD)
    then have "Key k \<in> fst ` set (objects b0)" by (rule entries_keys)
    then show "x \<in> fst ` set (objects b)" using o k by simp
  qed
qed

lemma bucket_DelMulti_objects:
  "bucket_DelMulti ks b = (None, b') \<Longrightarrow> objects b' = filter (\<lambda>ko. fst ko \<notin> set ks) (objects b)"
  by (auto simp: bucket_DelMulti_def split: prod.splits option.splits dest: next_fault_objects)

definition listed :: "ListResp \<Rightarrow> bucket \<Rightarrow> bool" where
  "listed r b \<longleftrightarrow> Key ` set (Contents r) \<subseteq> fst ` set (objects b)"

termination Delete_loop
proof (relation "measure (\<lambda>(d, path, r, b). 2 * length (objects b) + (if listed r b then 0 else 1))", goal_cases)
  case 1 show ?case by simp
next
  case (2 d path r b x1 bkt1 x2 b2 r')
  from 2(2,3) have dm: "bucket_DelMulti (map Key (Contents r)) b = (None, bkt1)" by simp
  from 2(4,5) have bl: "bucket_List (s3Path d path) [] [] listMax bkt1 = (Inr r', b2)" by simp
  have o1: "objects bkt1 = filter (\<lambda>ko. fst ko \<notin> set (map Key (Contents r))) (objects b)"
    using dm by (rule bucket_DelMulti_objects)
  have o2: "objects b2 = objects bkt1" and l2: "listed r' b2"
    using bucket_List_keys[OF bl] by (simp_all add: listed_def)
  have le: "length (objects bkt1) \<le> length (objects b)" by (simp add: o1)
  show ?case
  proof (cases "listed r b")
    case False
    then show ?thesis using le o2 l2 by simp
  next
    case True
    from 2(1) obtain k where k: "k \<in> set (Contents r)" by (cases "Contents r") auto
    with True obtain ko where ko: "ko \<in> set (objects b)" "fst ko = Key k"
      by (auto simp: listed_def)
    have "length (objects bkt1) < length (objects b)"
      unfolding o1 using ko k by (intro length_filter_less[of ko]) auto
    then show ?thesis using True o2 l2 by simp
  qed
qed


lemma next_fault_nil: "faults b = [] \<Longrightarrow> next_fault b = (None, b)"
  by (simp add: next_fault_def)





lemma bucket_List_reliable:
  "faults b = [] \<Longrightarrow> bucket_List p dl m n b =
     (Inr \<lparr>Contents = keys_of (take n (entries p dl m b)),
           CommonPrefixes = prefixes_of (take n (entries p dl m b)),
           IsTruncated = (n < length (entries p dl m b)),
           NextMarker = (if n < length (entries p dl m b) \<and> take n (entries p dl m b) \<noteq> []
                         then marker_of (last (take n (entries p dl m b))) else [])\<rparr>, b)"
  by (simp add: bucket_List_def next_fault_nil Let_def)



lemma entries_objects_cong: "objects b = objects b' \<Longrightarrow> entries p dl m b = entries p dl m b'"
  by (simp add: entries_def)


definition d0 :: driver where
  "d0 = \<lparr>ChunkSize = 4, RootDirectory = [], BucketName = ''registry''\<rparr>"

definition obj :: "byte list \<Rightarrow> s3object" where
  "obj bs = \<lparr>Data = bs, Modified = ''2015-04-01T00:00:00Z''\<rparr>"


lemmas eval_defs = Delete_def bucket_List_def bucket_DelMulti_def next_fault_def entries_def
  entry_of_def s3Path_def TrimLeft_def TrimRight_def listMax_def d0_def obj_def

text \<open>
  C5. A failing bulk-delete request should reach the caller as an error. Here the bucket
  holds one object under the path, the list request succeeds and the bulk delete fails:
  \<^verbatim>\<open>Delete\<close> returns \<^verbatim>\<open>nil\<close> and the object is still there.
\<close>

theorem Delete_bulk_failure_returns_nil:
  "Delete d0 ''/a''
     \<lparr>objects = [(''a'', obj [1])], multis = [], faults = [None, Some (S3Error ''InternalError'')]\<rparr>
   = (None, \<lparr>objects = [(''a'', obj [1])], multis = [], faults = []\<rparr>)"
  by (simp add: eval_defs)




subsection \<open>Readers\<close>

text \<open>
  An \<^verbatim>\<open>io.Reader\<close>: the bytes it still holds, the sizes of its next short reads (a read
  delivers at least one byte while bytes remain, and all that fits once the schedule is
  used up), and the error it reports once the bytes are gone (\<^verbatim>\<open>io.EOF\<close> if none).
\<close>

record reader =
  rdata :: "byte list"
  rsizes :: "nat list"
  rerr :: "error option"

definition Read :: "reader \<Rightarrow> nat \<Rightarrow> (byte list \<times> error option) \<times> reader" where
  "Read r n =
     (if rdata r = [] then (([], Some (case rerr r of None \<Rightarrow> EOF | Some e \<Rightarrow> e)), r)
      else (let k = min n (case rsizes r of [] \<Rightarrow> n | s # ss \<Rightarrow> Suc s)
            in ((take k (rdata r), None),
                r\<lparr>rdata := drop k (rdata r), rsizes := tl (rsizes r)\<rparr>)))"

definition NewReader :: "byte list \<Rightarrow> reader" where
  "NewReader bs = \<lparr>rdata = bs, rsizes = [], rerr = None\<rparr>"

subsection \<open>Reading\<close>

definition lookup :: "bucket \<Rightarrow> string \<Rightarrow> s3object option" where
  "lookup b k = map_of (objects b) k"

text \<open>\<^verbatim>\<open>Bucket.Head\<close>: the content length of the object.\<close>

definition bucket_Head :: "string \<Rightarrow> bucket \<Rightarrow> (error + nat) \<times> bucket" where
  "bucket_Head k b =
     (case next_fault b of
        (Some e, b') \<Rightarrow> (Inl e, b')
      | (None, b') \<Rightarrow>
          (case lookup b' k of
             None \<Rightarrow> (Inl (S3Error ''NoSuchKey''), b')
           | Some ob \<Rightarrow> (Inr (length (Data ob)), b')))"

text \<open>
  \<^verbatim>\<open>Bucket.GetResponseWithHeaders\<close> with the header \<^verbatim>\<open>Range: bytes=<first>-\<close>: the body
  from byte \<open>first\<close> on; a range that starts at or after the end of the object is refused
  with \<^verbatim>\<open>InvalidRange\<close>.
\<close>

definition bucket_GetRange :: "string \<Rightarrow> nat \<Rightarrow> bucket \<Rightarrow> (error + reader) \<times> bucket" where
  "bucket_GetRange k first b =
     (case next_fault b of
        (Some e, b') \<Rightarrow> (Inl e, b')
      | (None, b') \<Rightarrow>
          (case lookup b' k of
             None \<Rightarrow> (Inl (S3Error ''NoSuchKey''), b')
           | Some ob \<Rightarrow>
               (if length (Data ob) \<le> first then (Inl (S3Error ''InvalidRange''), b')
                else (Inr (NewReader (drop first (Data ob))), b'))))"

definition parseError :: "string \<Rightarrow> error \<Rightarrow> error" where
  "parseError path err = (if err = S3Error ''NoSuchKey'' then PathNotFoundError path else err)"

definition ReadStream :: "driver \<Rightarrow> string \<Rightarrow> nat \<Rightarrow> bucket \<Rightarrow> (error + reader) \<times> bucket" where
  "ReadStream d path offset b =
     (case bucket_GetRange (s3Path d path) offset b of
        (Inl err, b') \<Rightarrow>
          (if err = S3Error ''InvalidRange'' then (Inr (NewReader []), b')
           else (Inl (parseError path err), b'))
      | (Inr body, b') \<Rightarrow> (Inr body, b'))"

subsection \<open>Stat\<close>

text \<open>
  \<^verbatim>\<open>storagedriver.FileInfoFields\<close>. \<^verbatim>\<open>time.Parse\<close> belongs to the Go library and is a
  parameter of \<open>Stat\<close>; the zero \<^verbatim>\<open>time.Time\<close> of a directory is \<open>None\<close>.
\<close>

record 't FileInfoFields =
  Path :: string
  FSize :: nat
  ModTime :: "'t option"
  IsDir :: bool

definition Stat ::
  "driver \<Rightarrow> (string \<Rightarrow> error + 't) \<Rightarrow> string \<Rightarrow> bucket \<Rightarrow> (error + 't FileInfoFields) \<times> bucket" where
  "Stat d time_Parse path b =
     (case bucket_List (s3Path d path) [] [] 1 b of
        (Inl err, b') \<Rightarrow> (Inl err, b')
      | (Inr listResponse, b') \<Rightarrow>
          (let fi = \<lparr>Path = path, FSize = 0, ModTime = None, IsDir = False\<rparr> in
           if length (Contents listResponse) = 1 then
             (if Key (hd (Contents listResponse)) \<noteq> s3Path d path
              then (Inr (fi\<lparr>IsDir := True\<rparr>), b')
              else (case time_Parse (LastModified (hd (Contents listResponse))) of
                      Inl err \<Rightarrow> (Inl err, b')
                    | Inr timestamp \<Rightarrow>
                        (Inr (fi\<lparr>IsDir := False, FSize := Size (hd (Contents listResponse)),
                                 ModTime := Some timestamp\<rparr>), b')))
           else if length (CommonPrefixes listResponse) = 1 then (Inr (fi\<lparr>IsDir := True\<rparr>), b')
           else (Inl (PathNotFoundError path), b')))"

lemma HasPrefix_not_less: "HasPrefix k p \<Longrightarrow> \<not> k < p"
  by (induction k p rule: HasPrefix.induct) auto

lemma HasPrefix_refl: "HasPrefix p p"
  by (induction p) auto

lemma first_with_prefix:
  "sorted_wrt (<) (map fst xs) \<Longrightarrow> (p, ob) \<in> set xs \<Longrightarrow>
   \<exists>rest. filter (\<lambda>ko. HasPrefix (fst ko) p) xs = (p, ob) # rest"
proof (induction xs)
  case Nil then show ?case by simp
next
  case (Cons x xs)
  show ?case
  proof (cases "x = (p, ob)")
    case True then show ?thesis by (simp add: HasPrefix_refl)
  next
    case False
    then have mem: "(p, ob) \<in> set xs" using Cons.prems(2) by auto
    then have "fst x < p" using Cons.prems(1) by force
    then have "\<not> HasPrefix (fst x) p" using HasPrefix_not_less by blast
    moreover have "sorted_wrt (<) (map fst xs)" using Cons.prems(1) by simp
    ultimately show ?thesis using Cons.IH mem by auto
  qed
qed


lemma take1_remdups_adj: "take (Suc 0) (remdups_adj (a # as)) = [a]"
  by (cases "remdups_adj as") (auto simp: remdups_adj_Cons)

lemma take1_entries:
  "take (Suc 0) (entries p [] [] b) =
     (case filter (\<lambda>ko. HasPrefix (fst ko) p) (objects b) of
        [] \<Rightarrow> []
      | ko # rest \<Rightarrow> [EKey \<lparr>Key = fst ko, Size = length (Data (snd ko)), LastModified = Modified (snd ko)\<rparr>])"
proof (cases "filter (\<lambda>ko. HasPrefix (fst ko) p) (objects b)")
  case Nil
  then show ?thesis by (simp add: entries_def)
next
  case (Cons ko rest)
  then show ?thesis by (simp add: entries_def take1_remdups_adj entry_of_def)
qed

lemma Stat_reliable:
  assumes "faults b = []"
  shows "Stat d tp path b =
     (case filter (\<lambda>ko. HasPrefix (fst ko) (s3Path d path)) (objects b) of
        [] \<Rightarrow> (Inl (PathNotFoundError path), b)
      | ko # rest \<Rightarrow>
          (if fst ko \<noteq> s3Path d path
           then (Inr \<lparr>Path = path, FSize = 0, ModTime = None, IsDir = True\<rparr>, b)
           else (case tp (Modified (snd ko)) of
                   Inl err \<Rightarrow> (Inl err, b)
                 | Inr t \<Rightarrow> (Inr \<lparr>Path = path, FSize = length (Data (snd ko)),
                                    ModTime = Some t, IsDir = False\<rparr>, b))))"
proof (cases "filter (\<lambda>ko. HasPrefix (fst ko) (s3Path d path)) (objects b)")
  case Nil
  then have "take (Suc 0) (entries (s3Path d path) [] [] b) = []"
    by (simp add: take1_entries)
  then show ?thesis
    unfolding Stat_def bucket_List_reliable[OF assms] by (simp add: Nil Let_def)
next
  case (Cons ko rest)
  then have "take (Suc 0) (entries (s3Path d path) [] [] b) =
      [EKey \<lparr>Key = fst ko, Size = length (Data (snd ko)), LastModified = Modified (snd ko)\<rparr>]"
    by (simp add: take1_entries)
  then show ?thesis
    unfolding Stat_def bucket_List_reliable[OF assms] by (simp add: Cons Let_def split: sum.splits)
qed

definition is_key :: "bucket \<Rightarrow> string \<Rightarrow> bool" where
  "is_key b k \<longleftrightarrow> k \<in> fst ` set (objects b)"

definition has_descendant :: "bucket \<Rightarrow> string \<Rightarrow> bool" where
  "has_descendant b p \<longleftrightarrow> (\<exists>k \<in> fst ` set (objects b). HasPrefix k p)"

definition key_ordered :: "bucket \<Rightarrow> bool" where
  "key_ordered b \<longleftrightarrow> sorted_wrt (<) (map fst (objects b))"

text \<open>
  C7. \<^verbatim>\<open>Stat\<close> lists one key at the key of the path. On a bucket that answers (no fault)
  and lists its keys in order: a path that is no key but a prefix of some key is a
  directory; a path that is a key is a file with the size of the object and the time
  parsed from its modification stamp (the parse error, if the stamp does not parse); a
  path that is a prefix of no key is \<^verbatim>\<open>PathNotFoundError\<close>.
\<close>

theorem Stat_disambiguates:
  assumes "faults b = []" and "key_ordered b"
  shows "(\<not> is_key b (s3Path d path) \<and> has_descendant b (s3Path d path) \<longrightarrow>
            Stat d tp path b = (Inr \<lparr>Path = path, FSize = 0, ModTime = None, IsDir = True\<rparr>, b))
       \<and> (\<forall>ob. lookup b (s3Path d path) = Some ob \<longrightarrow>
            Stat d tp path b =
              (case tp (Modified ob) of
                 Inl err \<Rightarrow> (Inl err, b)
               | Inr t \<Rightarrow> (Inr \<lparr>Path = path, FSize = length (Data ob), ModTime = Some t,
                                 IsDir = False\<rparr>, b)))
       \<and> (\<not> has_descendant b (s3Path d path) \<longrightarrow>
            Stat d tp path b = (Inl (PathNotFoundError path), b))"
proof (intro conjI impI allI)
  let ?p = "s3Path d path"
  let ?f = "filter (\<lambda>ko. HasPrefix (fst ko) ?p) (objects b)"
  {
    assume a: "\<not> is_key b ?p \<and> has_descendant b ?p"
    then obtain ko rest where f: "?f = ko # rest"
      by (cases ?f) (auto simp: has_descendant_def filter_empty_conv)
    then have "ko \<in> set ?f" by simp
    then have "is_key b (fst ko)" unfolding is_key_def by (intro imageI) simp
    then have "fst ko \<noteq> ?p" using a by auto
    then show "Stat d tp path b = (Inr \<lparr>Path = path, FSize = 0, ModTime = None, IsDir = True\<rparr>, b)"
      by (simp add: Stat_reliable[OF assms(1)] f)
  }
  {
    fix ob assume "lookup b ?p = Some ob"
    then have "(?p, ob) \<in> set (objects b)" by (auto simp: lookup_def dest: map_of_SomeD)
    then obtain rest where "?f = (?p, ob) # rest"
      using first_with_prefix[of "objects b" ?p ob] assms(2) by (auto simp: key_ordered_def)
    then show "Stat d tp path b =
              (case tp (Modified ob) of
                 Inl err \<Rightarrow> (Inl err, b)
               | Inr t \<Rightarrow> (Inr \<lparr>Path = path, FSize = length (Data ob), ModTime = Some t,
                                 IsDir = False\<rparr>, b))"
      by (simp add: Stat_reliable[OF assms(1)] split: sum.splits)
  }
  {
    assume "\<not> has_descendant b ?p"
    then have "?f = []" by (auto simp: has_descendant_def filter_empty_conv)
    then show "Stat d tp path b = (Inl (PathNotFoundError path), b)"
      by (simp add: Stat_reliable[OF assms(1)])
  }
qed

definition bkt1 :: bucket where
  "bkt1 = \<lparr>objects = [(''a/x'', obj [1, 2]), (''a/y'', obj []), (''b'', obj [7])], multis = [], faults = []\<rparr>"

theorem Stat_disambiguates_witness:
  "Stat d0 Inr ''/a'' bkt1 = (Inr \<lparr>Path = ''/a'', FSize = 0, ModTime = None, IsDir = True\<rparr>, bkt1)
   \<and> Stat d0 Inr ''/a/x'' bkt1 =
       (Inr \<lparr>Path = ''/a/x'', FSize = 2, ModTime = Some ''2015-04-01T00:00:00Z'', IsDir = False\<rparr>, bkt1)
   \<and> Stat d0 Inr ''/c'' bkt1 = (Inl (PathNotFoundError ''/c''), bkt1)"
proof -
  have f: "faults bkt1 = []" by (simp add: bkt1_def)
  have k: "key_ordered bkt1" by (simp add: bkt1_def key_ordered_def)
  have 1: "\<not> is_key bkt1 (s3Path d0 ''/a'') \<and> has_descendant bkt1 (s3Path d0 ''/a'')"
    by (simp add: bkt1_def is_key_def has_descendant_def s3Path_def TrimLeft_def TrimRight_def d0_def)
  have 2: "lookup bkt1 (s3Path d0 ''/a/x'') = Some (obj [1, 2])"
    by (simp add: bkt1_def lookup_def s3Path_def TrimLeft_def TrimRight_def d0_def)
  have 3: "\<not> has_descendant bkt1 (s3Path d0 ''/c'')"
    by (simp add: bkt1_def has_descendant_def s3Path_def TrimLeft_def TrimRight_def d0_def)
  show ?thesis
    using Stat_disambiguates[OF f k, of d0 "''/a''" Inr] Stat_disambiguates[OF f k, of d0 "''/a/x''" Inr]
      Stat_disambiguates[OF f k, of d0 "''/c''" Inr] 1 2 3
    by (simp add: obj_def)
qed

text \<open>
  C9. On a bucket that answers, \<^verbatim>\<open>ReadStream\<close> of an existing path returns the stream of
  the bytes from the offset on, and no error; at an offset at or beyond the size the
  stream is empty and its first read reports \<^verbatim>\<open>io.EOF\<close>.
\<close>

theorem ReadStream_existing:
  assumes "faults b = []" and "lookup b (s3Path d path) = Some ob"
  shows "ReadStream d path offset b = (Inr (NewReader (drop offset (Data ob))), b)
       \<and> (length (Data ob) \<le> offset \<longrightarrow>
            (\<forall>n. Read (NewReader (drop offset (Data ob))) n = (([], Some EOF), NewReader [])))"
  using assms
  by (simp add: ReadStream_def bucket_GetRange_def next_fault_nil NewReader_def Read_def)

theorem ReadStream_existing_witness:
  "ReadStream d0 ''/a/x'' 1 bkt1 = (Inr (NewReader [2]), bkt1)
   \<and> ReadStream d0 ''/a/x'' 2 bkt1 = (Inr (NewReader []), bkt1)
   \<and> Read (NewReader []) 4 = (([], Some EOF), NewReader [])"
proof -
  have f: "faults bkt1 = []" by (simp add: bkt1_def)
  have 2: "lookup bkt1 (s3Path d0 ''/a/x'') = Some (obj [1, 2])"
    by (simp add: bkt1_def lookup_def s3Path_def TrimLeft_def TrimRight_def d0_def)
  show ?thesis
    using ReadStream_existing[OF f 2, of 1] ReadStream_existing[OF f 2, of 2]
    by (simp add: obj_def)
qed

subsection \<open>Multipart sessions\<close>

text \<open>
  \<^verbatim>\<open>InitMulti\<close> opens a session and returns its handle (the position in \<open>multis\<close>).
  \<^verbatim>\<open>PutPart\<close> stores the bytes under the part number. \<^verbatim>\<open>PutPartCopy\<close> stores a range of an
  object of the same bucket (\<open>None\<close>: the whole object). \<^verbatim>\<open>Complete\<close> assembles the listed
  parts, which must be known to the session and in ascending order, and writes the object;
  \<^verbatim>\<open>Abort\<close> drops the session. The backend's minimum part size is not modelled, and a new
  object carries an empty modification stamp.
\<close>

fun put_object :: "string \<Rightarrow> s3object \<Rightarrow> (string \<times> s3object) list \<Rightarrow> (string \<times> s3object) list" where
  "put_object k ob [] = [(k, ob)]"
| "put_object k ob (x # xs) =
     (if k = fst x then (k, ob) # xs
      else if k < fst x then (k, ob) # x # xs
      else x # put_object k ob xs)"

definition update_multi :: "nat \<Rightarrow> (multi \<Rightarrow> multi) \<Rightarrow> bucket \<Rightarrow> bucket" where
  "update_multi m f b = b\<lparr>multis := (multis b)[m := f (multis b ! m)]\<rparr>"

definition bucket_InitMulti :: "string \<Rightarrow> bucket \<Rightarrow> (error + nat) \<times> bucket" where
  "bucket_InitMulti k b =
     (case next_fault b of
        (Some e, b') \<Rightarrow> (Inl e, b')
      | (None, b') \<Rightarrow>
          (Inr (length (multis b')),
           b'\<lparr>multis := multis b' @ [\<lparr>MKey = k, Uploaded = [], Status = Pending, Resolutions = 0\<rparr>]\<rparr>))"

definition store_part :: "nat \<Rightarrow> nat \<Rightarrow> byte list \<Rightarrow> bucket \<Rightarrow> (error + Part) \<times> bucket" where
  "store_part m n bs b =
     (Inr \<lparr>N = n, PSize = length bs\<rparr>,
      update_multi m (\<lambda>u. u\<lparr>Uploaded := filter (\<lambda>x. fst x \<noteq> n) (Uploaded u) @ [(n, bs)]\<rparr>) b)"

definition multi_PutPart :: "nat \<Rightarrow> nat \<Rightarrow> byte list \<Rightarrow> bucket \<Rightarrow> (error + Part) \<times> bucket" where
  "multi_PutPart m n bs b =
     (case next_fault b of
        (Some e, b') \<Rightarrow> (Inl e, b')
      | (None, b') \<Rightarrow> store_part m n bs b')"

definition multi_PutPartCopy ::
  "nat \<Rightarrow> nat \<Rightarrow> (nat \<times> nat) option \<Rightarrow> string \<Rightarrow> bucket \<Rightarrow> (error + Part) \<times> bucket" where
  "multi_PutPartCopy m n rng source b =
     (case next_fault b of
        (Some e, b') \<Rightarrow> (Inl e, b')
      | (None, b') \<Rightarrow>
          (case lookup b' source of
             None \<Rightarrow> (Inl (S3Error ''NoSuchKey''), b')
           | Some ob \<Rightarrow>
               (case rng of
                  None \<Rightarrow> store_part m n (Data ob) b'
                | Some (lo, hi) \<Rightarrow>
                    (if lo \<le> hi \<and> hi < length (Data ob)
                     then store_part m n (take (Suc hi - lo) (drop lo (Data ob))) b'
                     else (Inl (S3Error ''InvalidRange''), b')))))"

definition multi_Complete :: "nat \<Rightarrow> Part list \<Rightarrow> bucket \<Rightarrow> error option \<times> bucket" where
  "multi_Complete m ps b =
     (case next_fault b of
        (Some e, b') \<Rightarrow> (Some e, b')
      | (None, b') \<Rightarrow>
          (let u = multis b' ! m; found = map (\<lambda>p. map_of (Uploaded u) (N p)) ps in
           if \<not> sorted_wrt (<) (map N ps) then (Some (S3Error ''InvalidPartOrder''), b')
           else if None \<in> set found then (Some (S3Error ''InvalidPart''), b')
           else (None,
                 update_multi m (\<lambda>u. u\<lparr>Status := Completed, Resolutions := Suc (Resolutions u)\<rparr>)
                   (b'\<lparr>objects := put_object (MKey u)
                         \<lparr>Data = concat (map the found), Modified = []\<rparr> (objects b')\<rparr>))))"

definition multi_Abort :: "nat \<Rightarrow> bucket \<Rightarrow> error option \<times> bucket" where
  "multi_Abort m b =
     (case next_fault b of
        (Some e, b') \<Rightarrow> (Some e, b')
      | (None, b') \<Rightarrow>
          (None, update_multi m (\<lambda>u. u\<lparr>Status := Aborted, Resolutions := Suc (Resolutions u)\<rparr>) b'))"


subsection \<open>WriteStream\<close>

text \<open>
  The local variables of \<^verbatim>\<open>WriteStream\<close> that its closures share, with the source reader
  and the bucket. \<open>putErrChan\<close> is \<open>None\<close> for the nil channel and \<open>Some msg\<close> once an
  upload has been started, \<open>msg\<close> being what that upload sends first: \<open>None\<close> for
  \<^verbatim>\<open>nil\<close>, \<open>Some e\<close> for the error of its \<^verbatim>\<open>PutPart\<close>. Between the start of an upload and
  the receipt of its message the caller only reads from the source, so the upload is run
  when it is started. After sending an error the upload still appends its zero-valued
  part and increments \<open>partNumber\<close>, unsynchronised with the caller; \<open>racy\<close> says whether
  the caller sees that append.
\<close>

record ws =
  totalRead :: nat
  bytesRead :: nat
  putErrChan :: "error option option"
  parts :: "Part list"
  partNumber :: nat
  buf :: "byte list"
  src :: reader
  bkt :: bucket

definition zeros :: "driver \<Rightarrow> byte list" where
  "zeros d = replicate (ChunkSize d) 0"

definition getbuf :: "driver \<Rightarrow> byte list" where
  "getbuf d = replicate (ChunkSize d) 0"

text \<open>\<^verbatim>\<open>copy(buf[i:], bs)\<close> for \<open>bs\<close> that fits.\<close>

definition write_at :: "byte list \<Rightarrow> nat \<Rightarrow> byte list \<Rightarrow> byte list" where
  "write_at b i bs = take i b @ bs @ drop (i + length bs) b"

text \<open>
  The read loops of \<^verbatim>\<open>fromSmallCurrent\<close> and \<^verbatim>\<open>fromReader\<close>: read into \<open>b[lo + n : hi]\<close>
  until the slice is full or the reader reports an error; \<^verbatim>\<open>io.EOF\<close> ends the loop without
  error. The result is the error, the reader, the buffer and the bytes read.
\<close>

function read_loop ::
  "reader \<Rightarrow> byte list \<Rightarrow> nat \<Rightarrow> nat \<Rightarrow> nat \<Rightarrow> error option \<times> reader \<times> byte list \<times> nat" where
  "read_loop r b lo hi n =
     (if lo + n < hi then
        (case Read r (hi - (lo + n)) of
           ((bs, err), r') \<Rightarrow>
             (case err of
                Some e \<Rightarrow> (if e \<noteq> EOF then Some e else None, r', write_at b (lo + n) bs, n + length bs)
              | None \<Rightarrow> read_loop r' (write_at b (lo + n) bs) lo hi (n + length bs)))
      else (None, r, b, n))"
  by pat_completeness auto
termination
proof (relation "measure (\<lambda>(r, b, lo, hi, n). length (rdata r))", goal_cases)
  case 1 show ?case by simp
next
  case (2 r b lo hi n x r' bs err)
  then show ?case
    by (auto simp: Read_def Let_def split: if_splits list.splits)
qed

definition fromSmallCurrent :: "driver \<Rightarrow> string \<Rightarrow> nat \<Rightarrow> ws \<Rightarrow> error option \<times> ws" where
  "fromSmallCurrent d path tot s =
     (case ReadStream d path 0 (bkt s) of
        (Inl err, b') \<Rightarrow> (Some err, s\<lparr>bkt := b'\<rparr>)
      | (Inr current, b') \<Rightarrow>
          (case read_loop current (buf s) 0 tot 0 of
             (err, current', buf', n) \<Rightarrow> (err, s\<lparr>bkt := b', buf := buf', bytesRead := n\<rparr>)))"

text \<open>What the caller observes of an upload that failed, once it has taken its error.\<close>

definition late_append :: "bool \<Rightarrow> ws \<Rightarrow> ws" where
  "late_append racy s =
     (if racy then s\<lparr>parts := parts s @ [\<lparr>N = 0, PSize = 0\<rparr>], partNumber := Suc (partNumber s)\<rparr>
      else s)"

text \<open>The body of the upload started by \<^verbatim>\<open>fromReader\<close>, up to its first message.\<close>

definition upload :: "nat \<Rightarrow> nat \<Rightarrow> ws \<Rightarrow> ws" where
  "upload m from s =
     (if 0 < bytesRead s then
        (case multi_PutPart m (partNumber s) (take (bytesRead s + from) (buf s)) (bkt s) of
           (Inl putErr, b') \<Rightarrow> s\<lparr>putErrChan := Some (Some putErr), bkt := b'\<rparr>
         | (Inr part, b') \<Rightarrow>
             s\<lparr>putErrChan := Some None, parts := parts s @ [part],
               partNumber := Suc (partNumber s), bkt := b'\<rparr>)
      else s\<lparr>putErrChan := Some None\<rparr>)"

definition fromReader :: "driver \<Rightarrow> nat \<Rightarrow> bool \<Rightarrow> nat \<Rightarrow> ws \<Rightarrow> error option \<times> ws" where
  "fromReader d m racy from s =
     (case read_loop (src s) (buf s) from (ChunkSize d) 0 of
        (err, r', buf', n) \<Rightarrow>
          (let s1 = s\<lparr>src := r', buf := buf', bytesRead := n, totalRead := totalRead s + n\<rparr> in
           case err of
             Some e \<Rightarrow> (Some e, s1)
           | None \<Rightarrow>
               (case putErrChan s1 of
                  Some (Some putErr) \<Rightarrow> (Some putErr, late_append racy (s1\<lparr>putErrChan := None\<rparr>))
                | _ \<Rightarrow> (None, (upload m from s1)\<lparr>buf := getbuf d\<rparr>))))"

function fromZeroFillSmall_loop :: "driver \<Rightarrow> nat \<Rightarrow> nat \<Rightarrow> ws \<Rightarrow> error option \<times> ws" where
  "fromZeroFillSmall_loop d from to s =
     (if from + bytesRead s < to then
        (case Read (NewReader (zeros d)) (to - (from + bytesRead s)) of
           ((bs, err), r') \<Rightarrow>
             (let s' = s\<lparr>buf := write_at (buf s) (from + bytesRead s) bs,
                          bytesRead := bytesRead s + length bs\<rparr> in
              case err of
                Some e \<Rightarrow> (Some e, s')
              | None \<Rightarrow> fromZeroFillSmall_loop d from to s'))
      else (None, s))"
  by pat_completeness auto
termination
proof (relation "measure (\<lambda>(d, from, to, s). to - (from + bytesRead s))", goal_cases)
  case 1 show ?case by simp
next
  case (2 d "from" to s x r' bs err s')
  then have ne: "zeros d \<noteq> []" and bs: "bs = take (to - (from + bytesRead s)) (zeros d)"
    and s': "bytesRead s' = bytesRead s + length bs"
    by (auto simp: Read_def NewReader_def Let_def split: if_splits)
  from ne have "0 < length (zeros d)" by simp
  then have "0 < length bs" using bs 2(1) by simp
  then have "to - (from + (bytesRead s + length bs)) < to - (from + bytesRead s)"
    using 2(1) by arith
  then show ?case using s' by simp
qed

definition fromZeroFillSmall :: "driver \<Rightarrow> nat \<Rightarrow> nat \<Rightarrow> ws \<Rightarrow> error option \<times> ws" where
  "fromZeroFillSmall d from to s = fromZeroFillSmall_loop d from to (s\<lparr>bytesRead := 0\<rparr>)"


text \<open>
  The two loops that need a positive chunk size to end: with \<^verbatim>\<open>ChunkSize\<close> zero neither
  makes progress. They are partial; \<open>None\<close> says that the call does not return.
\<close>

partial_function (option) fromZeroFillLarge_loop ::
  "driver \<Rightarrow> nat \<Rightarrow> nat \<Rightarrow> nat \<Rightarrow> nat \<Rightarrow> ws \<Rightarrow> (error option \<times> ws) option" where
  "fromZeroFillLarge_loop d m from to bytesRead64 s =
     (if ChunkSize d \<le> to - (from + bytesRead64) then
        (case multi_PutPart m (partNumber s) (zeros d) (bkt s) of
           (Inl err, b') \<Rightarrow> Some (Some err, s\<lparr>bkt := b'\<rparr>)
         | (Inr part, b') \<Rightarrow>
             fromZeroFillLarge_loop d m from to (bytesRead64 + ChunkSize d)
               (s\<lparr>bkt := b', parts := parts s @ [part], partNumber := Suc (partNumber s)\<rparr>))
      else Some (fromZeroFillSmall d 0 ((to - from) mod ChunkSize d) s))"

definition fromZeroFillLarge :: "driver \<Rightarrow> nat \<Rightarrow> nat \<Rightarrow> nat \<Rightarrow> ws \<Rightarrow> (error option \<times> ws) option" where
  "fromZeroFillLarge d m from to s = fromZeroFillLarge_loop d m from to 0 s"

partial_function (option) main_loop ::
  "driver \<Rightarrow> nat \<Rightarrow> bool \<Rightarrow> ws \<Rightarrow> (error option \<times> ws) option" where
  "main_loop d m racy s =
     (case fromReader d m racy 0 s of
        (Some err, s') \<Rightarrow> Some (Some err, s')
      | (None, s') \<Rightarrow> (if bytesRead s' < ChunkSize d then Some (None, s') else main_loop d m racy s'))"

declare fromZeroFillLarge_loop.simps [code] main_loop.simps [code]

text \<open>
  A \<^verbatim>\<open>return\<close> statement fixes the two results; the deferred function runs on the state
  left at that point. \<open>andThen\<close> is the step
  \<^verbatim>\<open>if err = f(); err != nil { return totalRead, err }\<close>.
\<close>

type_synonym ret = "(nat \<times> error option) \<times> ws"

definition andThen :: "error option \<times> ws \<Rightarrow> (ws \<Rightarrow> ret option) \<Rightarrow> ret option" where
  "andThen r k = (case r of (Some err, s) \<Rightarrow> Some ((totalRead s, Some err), s) | (None, s) \<Rightarrow> k s)"

definition add_part :: "Part \<Rightarrow> bucket \<Rightarrow> ws \<Rightarrow> ws" where
  "add_part part b' s = s\<lparr>bkt := b', parts := parts s @ [part], partNumber := Suc (partNumber s)\<rparr>"

definition stream_rest :: "driver \<Rightarrow> nat \<Rightarrow> bool \<Rightarrow> ws \<Rightarrow> ret option" where
  "stream_rest d m racy s =
     (case main_loop d m racy s of
        None \<Rightarrow> None
      | Some r \<Rightarrow> andThen r (\<lambda>s'. Some ((totalRead s', None), s')))"

definition WriteStream_body :: "driver \<Rightarrow> nat \<Rightarrow> bool \<Rightarrow> string \<Rightarrow> nat \<Rightarrow> ws \<Rightarrow> ret option" where
  "WriteStream_body d m racy path offset s0 =
     (if 0 < offset then
        (case bucket_Head (s3Path d path) (bkt s0) of
           (resp, bh) \<Rightarrow>
             (let s = s0\<lparr>bkt := bh\<rparr> in
              if (case resp of Inl err \<Rightarrow> err \<noteq> S3Error ''NoSuchKey'' | Inr n \<Rightarrow> False)
              then Some ((0, (case resp of Inl err \<Rightarrow> Some err | Inr n \<Rightarrow> None)), s)
              else
                (let currentLength = (case resp of Inl err \<Rightarrow> 0 | Inr n \<Rightarrow> n) in
                 if offset \<le> currentLength then
                   (if offset < ChunkSize d then
                      andThen (fromSmallCurrent d path offset s) (\<lambda>s.
                      andThen (fromReader d m racy offset s) (\<lambda>s.
                        if totalRead s + offset < ChunkSize d then Some ((totalRead s, None), s)
                        else stream_rest d m racy s))
                    else
                      (case multi_PutPartCopy m (partNumber s) (Some (0, offset - 1))
                              (s3Path d path) (bkt s) of
                         (Inl err, b') \<Rightarrow> Some ((0, Some err), s\<lparr>bkt := b'\<rparr>)
                       | (Inr part, b') \<Rightarrow> stream_rest d m racy (add_part part b' s)))
                 else if currentLength < ChunkSize d then
                   (if offset < ChunkSize d then
                      andThen (fromSmallCurrent d path currentLength s) (\<lambda>s.
                      andThen (fromZeroFillSmall d currentLength offset s) (\<lambda>s.
                      andThen (fromReader d m racy offset s) (\<lambda>s.
                        if totalRead s + offset < ChunkSize d then Some ((totalRead s, None), s)
                        else stream_rest d m racy s)))
                    else
                      andThen (fromSmallCurrent d path currentLength s) (\<lambda>s.
                      andThen (fromZeroFillSmall d currentLength (ChunkSize d) s) (\<lambda>s.
                        (case multi_PutPart m (partNumber s) (buf s) (bkt s) of
                           (Inl err, b') \<Rightarrow> Some ((totalRead s, Some err), s\<lparr>bkt := b'\<rparr>)
                         | (Inr part, b') \<Rightarrow>
                             (case fromZeroFillLarge d m (ChunkSize d) offset (add_part part b' s) of
                                None \<Rightarrow> None
                              | Some r \<Rightarrow>
                                  andThen r (\<lambda>s.
                                  andThen (fromReader d m racy (offset mod ChunkSize d) s) (\<lambda>s.
                                    if totalRead s + offset mod ChunkSize d < ChunkSize d
                                    then Some ((totalRead s, None), s)
                                    else stream_rest d m racy s)))))))
                 else
                   (case multi_PutPartCopy m (partNumber s) None (s3Path d path) (bkt s) of
                      (Inl err, b') \<Rightarrow> Some ((0, Some err), s\<lparr>bkt := b'\<rparr>)
                    | (Inr part, b') \<Rightarrow>
                        (case fromZeroFillLarge d m currentLength offset (add_part part b' s) of
                           None \<Rightarrow> None
                         | Some r \<Rightarrow>
                             andThen r (\<lambda>s.
                             andThen (fromReader d m racy ((offset - currentLength) mod ChunkSize d) s) (\<lambda>s.
                               if totalRead s + (offset - currentLength) mod ChunkSize d < ChunkSize d
                               then Some ((totalRead s, None), s)
                               else stream_rest d m racy s)))))))
      else stream_rest d m racy s0)"

text \<open>
  The deferred function: take the message of the last upload, complete the session if
  there are parts and abort it if completion fails.
\<close>

definition deferred :: "nat \<Rightarrow> bool \<Rightarrow> ret \<Rightarrow> (nat \<times> error option) \<times> reader \<times> bucket" where
  "deferred m racy r =
     (case r of ((n, err), s) \<Rightarrow>
        (let (err1, s1) =
               (case putErrChan s of
                  Some (Some putErr) \<Rightarrow> (Some putErr, late_append racy s)
                | _ \<Rightarrow> (err, s));
             b2 = (if parts s1 \<noteq> [] then
                     (case multi_Complete m (parts s1) (bkt s1) of
                        (Some e, b') \<Rightarrow> snd (multi_Abort m b')
                      | (None, b') \<Rightarrow> b')
                   else bkt s1)
         in ((n, err1), src s1, b2)))"

definition WriteStream ::
  "driver \<Rightarrow> bool \<Rightarrow> string \<Rightarrow> nat \<Rightarrow> reader \<Rightarrow> bucket \<Rightarrow> ((nat \<times> error option) \<times> reader \<times> bucket) option" where
  "WriteStream d racy path offset reader b =
     (case bucket_InitMulti (s3Path d path) b of
        (Inl err, b0) \<Rightarrow> Some ((0, Some err), reader, b0)
      | (Inr m, b0) \<Rightarrow>
          map_option (deferred m racy)
            (WriteStream_body d m racy path offset
               \<lparr>totalRead = 0, bytesRead = 0, putErrChan = None, parts = [], partNumber = 1,
                buf = getbuf d, src = reader, bkt = b0\<rparr>))"

subsection \<open>WriteStream at its edges\<close>

definition empty_bucket :: bucket where
  "empty_bucket = \<lparr>objects = [], multis = [], faults = []\<rparr>"

text \<open>
  C2. A session that \<^verbatim>\<open>WriteStream\<close> has opened should be completed or aborted before
  the call returns. With an empty source at offset 0 no part is uploaded, \<open>parts\<close> is
  empty when the deferred function runs, and it neither completes nor aborts: the call
  returns with the session still pending.
\<close>

theorem WriteStream_empty_source_leaves_session_pending:
  "WriteStream d0 racy ''/p'' 0 (NewReader []) empty_bucket =
     Some ((0, None), NewReader [],
           \<lparr>objects = [],
            multis = [\<lparr>MKey = ''p'', Uploaded = [], Status = Pending, Resolutions = 0\<rparr>],
            faults = []\<rparr>)"
  by code_simp

text \<open>
  C3. A failure of the completion request should be returned. Here the session opens, the
  only part is uploaded and \<^verbatim>\<open>Complete\<close> fails: the session is aborted, no object is
  written, and \<^verbatim>\<open>WriteStream\<close> returns one byte read and no error.
\<close>

theorem WriteStream_discards_completion_failure:
  "WriteStream d0 racy ''/p'' 0 (NewReader [1])
     (empty_bucket\<lparr>faults := [None, None, Some (S3Error ''InternalError'')]\<rparr>) =
     Some ((1, None), NewReader [],
           \<lparr>objects = [],
            multis = [\<lparr>MKey = ''p'', Uploaded = [(1, [1])], Status = Aborted, Resolutions = 1\<rparr>],
            faults = []\<rparr>)"
  by code_simp


text \<open>
  C1, as stated, fails for a source without bytes: writing nothing at offset 3 of a
  six-byte object returns without error and leaves all six bytes, not the first three.
\<close>

theorem WriteStream_empty_source_keeps_tail:
  "WriteStream d0 racy ''/p'' 3 (NewReader [])
     \<lparr>objects = [(''p'', obj [1, 2, 3, 4, 5, 6])], multis = [], faults = []\<rparr> =
     Some ((0, None), NewReader [],
           \<lparr>objects = [(''p'', obj [1, 2, 3, 4, 5, 6])],
            multis = [\<lparr>MKey = ''p'', Uploaded = [], Status = Pending, Resolutions = 0\<rparr>],
            faults = []\<rparr>)"
  by code_simp

end
